theory Spec2Isabelle
  imports Main "HOL-Library.Sublist" "HOL-Library.Word"
begin

unbundle bit_operations_syntax

section \<open>The JEDCO data reader: \<open>scripts/data_reader.py\<close>\<close>

text \<open>
  The script is a linear pipeline: preflight checks, \<open>read_excel_data\<close>,
  \<open>validate_columns\<close>, \<open>convert_to_json_safe\<close>, \<open>save_to_json\<close>, driven by
  \<open>main\<close>. Its effects are made explicit here:
  \<^item> the process environment (the platform, the importable modules, the workbook at
    \<open>EXCEL_PATH\<close>, the clock, the file system) is a record \<open>world\<close> that every effectful function takes and returns;
  \<^item> the DataFrame objects that \<open>convert_to_json_safe\<close> copies and mutates live in an
    object store, a list indexed by reference;
  \<^item> an exception is a value of \<open>py_error\<close>; a function that catches it returns the
    sentinel the source returns (\<open>False\<close>, \<open>None\<close>), a function that lets it escape
    returns \<open>Inl\<close>.
  Console output (\<open>print_msg\<close>) is not modelled. The library calls follow CPython's
  \<open>pathlib\<close> and \<open>json\<close> (version 3.11), and pandas 2.x.
\<close>

subsection \<open>Strings\<close>

text \<open>A Python \<open>str\<close> is a sequence of Unicode code points.\<close>

type_synonym pystr = "nat list"

definition ascii :: "string \<Rightarrow> pystr" where
  "ascii s = map of_char s"

text \<open>\<open>str.split(sep)\<close> for a one-character separator.\<close>

fun split_on :: "nat \<Rightarrow> pystr \<Rightarrow> pystr \<Rightarrow> pystr list" where
  "split_on sep acc [] = [rev acc]"
| "split_on sep acc (c # cs) =
     (if c = sep then rev acc # split_on sep [] cs else split_on sep (c # acc) cs)"

text \<open>\<open>sep.join(xs)\<close>.\<close>

fun join :: "pystr \<Rightarrow> pystr list \<Rightarrow> pystr" where
  "join sep [] = []"
| "join sep [x] = x"
| "join sep (x # y # zs) = x @ sep @ join sep (y # zs)"

datatype py_error = OSError | TypeError | IndexError | AttributeError

subsection \<open>pathlib\<close>

text \<open>
  \<open>Path\<close> is \<open>PosixPath\<close> or \<open>WindowsPath\<close> according to the platform the script runs
  on; the model follows CPython 3.11. The two flavours differ in the separator (\<open>/\<close>, code
  point 47, or the backslash, code point 92, with \<open>/\<close> as alternative), in how a string
  splits into drive, root and the rest, and in the comparison of drives, which the Windows
  flavour does on lower-cased strings. \<open>str.lower\<close> follows the Unicode case tables, which
  are not modelled: it is a parameter of the platform.
\<close>

record platform =
  windows :: bool
  lower :: "pystr \<Rightarrow> pystr"

definition path_sep :: "platform \<Rightarrow> nat" where
  "path_sep pf = (if windows pf then 92 else 47)"

text \<open>\<open>s.find(c, start)\<close> for a character \<open>c\<close>; \<open>None\<close> is Python's \<open>-1\<close>.\<close>

definition find_from :: "nat \<Rightarrow> nat \<Rightarrow> pystr \<Rightarrow> nat option" where
  "find_from c start s =
     (let rest = drop start s
      in if c \<in> set rest then Some (start + length (takeWhile (\<lambda>x. x \<noteq> c) rest)) else None)"

text \<open>\<open>_PosixFlavour.splitroot\<close>: exactly two leading slashes are kept as the root.\<close>

definition posix_splitroot :: "pystr \<Rightarrow> pystr \<times> pystr \<times> pystr" where
  "posix_splitroot part =
     (if take 1 part = [47]
      then (let stripped_part = dropWhile (\<lambda>c. c = 47) part
            in if length part - length stripped_part = 2 then ([], [47, 47], stripped_part)
               else ([], [47], stripped_part))
      else ([], [], part))"

text \<open>
  \<open>_WindowsFlavour.splitroot\<close>, on a string whose \<open>/\<close> are already backslashes. It
  recognises the extended-path prefix (two backslashes, a question mark, code point 63, and
  a backslash, optionally followed by \<open>UNC\<close> and a backslash), a UNC drive (two
  backslashes, machine, backslash, mount point), a drive letter followed by a colon (code
  point 58), and the root.
\<close>

definition is_drive_letter :: "nat \<Rightarrow> bool" where
  "is_drive_letter c = ((97 \<le> c \<and> c \<le> 122) \<or> (65 \<le> c \<and> c \<le> 90))"

definition split_extended_path :: "pystr \<Rightarrow> pystr \<times> pystr" where
  "split_extended_path s =
     (if take 4 s = [92, 92, 63, 92]
      then (let s1 = drop 4 s
            in if take 4 s1 = ascii ''UNC'' @ [92] then (take 4 s @ take 3 s1, 92 # drop 3 s1)
               else (take 4 s, s1))
      else ([], s))"

definition nt_splitroot :: "pystr \<Rightarrow> pystr \<times> pystr \<times> pystr" where
  "nt_splitroot part0 =
     (let (pre, part) =
            (if take 1 (drop 1 part0) = [92] \<and> take 1 part0 = [92] then split_extended_path part0
             else ([], part0));
          first = take 1 part;
          second = take 1 (drop 1 part);
          third = take 1 (drop 2 part);
          unc =
            (if second = [92] \<and> first = [92] \<and> third \<noteq> [92]
             then (case find_from 92 2 part of
                     None \<Rightarrow> None
                   | Some index \<Rightarrow>
                       (let index2 = find_from 92 (index + 1) part
                        in if index2 = Some (index + 1) then None
                           else (let i2 = (case index2 of None \<Rightarrow> length part | Some j \<Rightarrow> j)
                                 in Some (if pre \<noteq> [] then pre @ drop 1 (take i2 part)
                                          else take i2 part,
                                          [92], drop (i2 + 1) part))))
             else None)
      in case unc of
           Some r \<Rightarrow> r
         | None \<Rightarrow>
             (let has_drv = (second = [58] \<and> list_ex is_drive_letter first);
                  drv = (if has_drv then take 2 part else []);
                  part1 = (if has_drv then drop 2 part else part);
                  first1 = (if has_drv then third else first)
              in if first1 = [92] then (pre @ drv, [92], dropWhile (\<lambda>c. c = 92) part1)
                 else (pre @ drv, [], part1)))"

text \<open>
  A path object knows its flavour and holds its drive, its root and its name segments.
  Parsing drops empty and \<open>.\<close> segments and keeps \<open>..\<close>.
\<close>

record path =
  flavour :: platform
  drive :: pystr
  root :: pystr
  segments :: "pystr list"

definition Path :: "platform \<Rightarrow> pystr \<Rightarrow> path" where
  "Path pf s =
     (let part = (if windows pf then map (\<lambda>c. if c = 47 then 92 else c) s else s);
          (drv, rt, rel) = (if windows pf then nt_splitroot part else posix_splitroot part)
      in \<lparr>flavour = pf, drive = drv, root = rt,
          segments = filter (\<lambda>x. x \<noteq> [] \<and> x \<noteq> ascii ''.'') (split_on (path_sep pf) [] rel)\<rparr>)"

text \<open>\<open>str(p)\<close>.\<close>

definition path_str :: "path \<Rightarrow> pystr" where
  "path_str p =
     (let s = drive p @ root p @ join [path_sep (flavour p)] (segments p)
      in if s = [] then ascii ''.'' else s)"

text \<open>
  \<open>p / s\<close> (\<open>join_parsed_parts\<close>): a right operand with a root, or with a drive other than
  that of \<open>p\<close>, replaces the path of \<open>p\<close>; otherwise its segments are appended.
\<close>

definition truediv :: "path \<Rightarrow> pystr \<Rightarrow> path" where
  "truediv p s =
     (let q = Path (flavour p) s in
      if root q \<noteq> [] then
        (if drive q = [] \<and> drive p \<noteq> [] then q\<lparr>drive := drive p\<rparr> else q)
      else if drive q \<noteq> [] then
        (if drive q = drive p \<or> lower (flavour p) (drive q) = lower (flavour p) (drive p)
         then p\<lparr>segments := segments p @ segments q\<rparr>
         else q)
      else p\<lparr>segments := segments p @ segments q\<rparr>)"

text \<open>\<open>p.parent\<close> and \<open>p.name\<close>.\<close>

definition path_parent :: "path \<Rightarrow> path" where
  "path_parent p = (if segments p = [] then p else p\<lparr>segments := butlast (segments p)\<rparr>)"

definition path_name :: "path \<Rightarrow> pystr" where
  "path_name p = (if segments p = [] then [] else last (segments p))"

text \<open>The path itself and its ancestors, outermost first.\<close>

definition with_ancestors :: "path \<Rightarrow> path list" where
  "with_ancestors p =
     map (\<lambda>k. p\<lparr>segments := take k (segments p)\<rparr>) [0..<Suc (length (segments p))]"

subsection \<open>Python objects and pandas columns\<close>

text \<open>
  A \<open>float\<close> is its IEEE-754 binary64 bit pattern; \<open>nan\<close> is \<open>numpy.nan\<close>. A pandas
  \<open>Timestamp\<close> is its calendar fields; a \<open>Timedelta\<close> is identified by the text pandas
  prints for it, and a \<open>datetime.time\<close> (the value of a time-of-day cell) by its text.
\<close>

definition isnan :: "64 word \<Rightarrow> bool" where
  "isnan w = (w AND 0x7FF0000000000000 = 0x7FF0000000000000 \<and> w AND 0x000FFFFFFFFFFFFF \<noteq> 0)"

definition nan :: "64 word" where
  "nan = 0x7FF8000000000000"

record timestamp =
  year :: nat
  month :: nat
  day :: nat
  hour :: nat
  minute :: nat
  second :: nat
  nanosecond :: nat

datatype pyval =
    PyNone
  | PyBool bool
  | PyInt int
  | PyFloat "64 word"
  | PyStr pystr
  | PyTimestamp timestamp
  | PyTimedelta pystr
  | PyNaT
  | PyTime pystr

text \<open>
  A dict is an association list in insertion order; the normalised records and the JSON
  document are built from these.
\<close>

type_synonym pydict = "(pystr \<times> pyval) list"

subsection \<open>Configuration constants\<close>

definition EXCEL_PATH :: "platform \<Rightarrow> path" where
  "EXCEL_PATH pf = Path pf (ascii ''C:'' @ [92] @ ascii ''Users'' @ [92] @ ascii ''pcpz1'' @ [92]
     @ ascii ''Desktop'' @ [92] @ ascii ''JEDCO_Fail_HT'' @ [92] @ ascii ''JEDCO_Tabel_Record''
     @ [92] @ ascii ''JEDCO_HT.xlsx'')"

text \<open>The paths depend on the platform; \<open>SCRIPT_DIR\<close>, \<open>PROJECT_DIR\<close> and \<open>OUTPUT_DIR\<close>
  depend on \<open>__file__\<close> as well.\<close>

definition SCRIPT_DIR :: "platform \<Rightarrow> pystr \<Rightarrow> path" where
  "SCRIPT_DIR pf file = path_parent (Path pf file)"

definition PROJECT_DIR :: "platform \<Rightarrow> pystr \<Rightarrow> path" where
  "PROJECT_DIR pf file = path_parent (SCRIPT_DIR pf file)"

definition OUTPUT_DIR :: "platform \<Rightarrow> pystr \<Rightarrow> path" where
  "OUTPUT_DIR pf file = truediv (PROJECT_DIR pf file) (ascii ''output'')"

definition SHEET_NAME :: pystr where
  "SHEET_NAME = [0x627, 0x644, 0x62A, 0x633, 0x62C, 0x64A, 0x644]"

definition HEADER_ROW :: nat where
  "HEADER_ROW = 4"

definition REQUIRED_COLUMNS :: "nat list" where
  "REQUIRED_COLUMNS = [0..<16]"

definition EXPECTED_COLUMNS :: "pystr list" where
  "EXPECTED_COLUMNS =
    [[0x645],
     [0x631, 0x642, 0x645, 0x20, 0x627, 0x644, 0x644, 0x648, 0x62D, 0x629],
     [0x627, 0x644, 0x646, 0x627, 0x642, 0x644, 0x20, 0x627, 0x644, 0x628, 0x631, 0x64A],
     [0x631, 0x642, 0x645, 0x20, 0x627, 0x644, 0x631, 0x62D, 0x644, 0x629],
     [0x639, 0x62F, 0x62F, 0x20, 0x627, 0x644, 0x631, 0x62D, 0x644, 0x627, 0x62A],
     [0x639, 0x62F, 0x62F, 0x20, 0x627, 0x644, 0x631, 0x643, 0x627, 0x628],
     [0x646, 0x648, 0x639, 0x20, 0x627, 0x644, 0x62A, 0x623, 0x634, 0x64A, 0x631, 0x629],
     [0x648, 0x642, 0x62A, 0x20, 0x627, 0x644, 0x625, 0x642, 0x644, 0x627, 0x639],
     [0x648, 0x642, 0x62A, 0x20, 0x648, 0x635, 0x648, 0x644, 0x20, 0x627, 0x644, 0x62D, 0x627,
      0x641, 0x644, 0x629],
     [0x634, 0x631, 0x643, 0x629, 0x20, 0x627, 0x644, 0x639, 0x645, 0x631, 0x629],
     [0x62D, 0x627, 0x644, 0x629, 0x20, 0x627, 0x644, 0x631, 0x62D, 0x644, 0x629],
     [0x648, 0x636, 0x639, 0x20, 0x627, 0x644, 0x631, 0x62D, 0x644, 0x629],
     [0x62D, 0x627, 0x644, 0x629, 0x20, 0x627, 0x644, 0x62D, 0x62C, 0x632],
     [0x627, 0x644, 0x62C, 0x646, 0x633, 0x64A, 0x629],
     [0x627, 0x644, 0x648, 0x62C, 0x647, 0x629],
     [0x627, 0x644, 0x625, 0x62C, 0x631, 0x627, 0x621, 0x20, 0x627, 0x644, 0x645, 0x62A, 0x62E,
      0x630]]"

subsection \<open>pandas: columns and frames\<close>

text \<open>
  A column is typed by its dtype. \<open>datetime64\<close> and \<open>timedelta64\<close> columns carry their
  resolution and hold \<open>NaT\<close> (here \<open>None\<close>) for a missing cell; \<open>float64\<close> holds
  \<open>NaN\<close>; an \<open>object\<close> column holds arbitrary Python objects.
\<close>

datatype time_unit = U_s | U_ms | U_us | U_ns

datatype series =
    Datetime64 time_unit "timestamp option list"
  | Timedelta64 time_unit "pystr option list"
  | Float64 "64 word list"
  | Int64 "64 word list"
  | Boolean "bool list"
  | Object "pyval list"

fun series_len :: "series \<Rightarrow> nat" where
  "series_len (Datetime64 u xs) = length xs"
| "series_len (Timedelta64 u xs) = length xs"
| "series_len (Float64 xs) = length xs"
| "series_len (Int64 xs) = length xs"
| "series_len (Boolean xs) = length xs"
| "series_len (Object xs) = length xs"

record dataframe =
  nrows :: nat
  cols :: "(pystr \<times> series) list"

text \<open>\<open>df.columns\<close>, \<open>df[col]\<close> (every column carrying the label) and \<open>df[col] = s\<close>.\<close>

definition columns_of :: "dataframe \<Rightarrow> pystr list" where
  "columns_of df = map fst (cols df)"

definition getitem :: "dataframe \<Rightarrow> pystr \<Rightarrow> series list" where
  "getitem df col = map snd (filter (\<lambda>(l, s). l = col) (cols df))"

definition setitem :: "dataframe \<Rightarrow> pystr \<Rightarrow> series \<Rightarrow> dataframe" where
  "setitem df col s =
     (if col \<in> set (columns_of df)
      then df\<lparr>cols := map (\<lambda>(l, old). if l = col then (l, s) else (l, old)) (cols df)\<rparr>
      else df\<lparr>cols := cols df @ [(col, s)]\<rparr>)"

text \<open>Every column of a frame has one cell per row.\<close>

definition wf_df :: "dataframe \<Rightarrow> bool" where
  "wf_df df = list_all (\<lambda>(l, s). series_len s = nrows df) (cols df)"

text \<open>
  The formatting of \<open>Series.dt.strftime('%Y-%m-%d %H:%M:%S')\<close>: the year in decimal, the
  other fields on two digits (48 is the code point of the digit 0); \<open>NaT\<close> becomes
  \<open>NaN\<close>, and the result is a column of dtype \<open>object\<close>.
\<close>

fun dec :: "nat \<Rightarrow> pystr" where
  "dec n = (if n < 10 then [48 + n] else dec (n div 10) @ [48 + n mod 10])"

definition pad2 :: "nat \<Rightarrow> pystr" where
  "pad2 n = (if n < 10 then 48 # dec n else dec n)"

definition strftime :: "timestamp \<Rightarrow> pystr" where
  "strftime t =
     dec (year t) @ ascii ''-'' @ pad2 (month t) @ ascii ''-'' @ pad2 (day t) @ ascii '' ''
     @ pad2 (hour t) @ ascii '':'' @ pad2 (minute t) @ ascii '':'' @ pad2 (second t)"

definition dt_strftime :: "timestamp option list \<Rightarrow> series" where
  "dt_strftime xs =
     Object (map (\<lambda>x. case x of None \<Rightarrow> PyFloat nan | Some t \<Rightarrow> PyStr (strftime t)) xs)"

text \<open>\<open>Series.astype(str)\<close> on a timedelta column: \<open>NaT\<close> becomes the text \<open>NaT\<close>.\<close>

definition astype_str :: "pystr option list \<Rightarrow> series" where
  "astype_str xs =
     Object (map (\<lambda>x. case x of None \<Rightarrow> PyStr (ascii ''NaT'') | Some d \<Rightarrow> PyStr d) xs)"

text \<open>
  The branch of the loop body of \<open>convert_to_json_safe\<close> for a column: the replacement
  column, or \<open>None\<close> when neither dtype test holds.
\<close>

fun converted :: "series \<Rightarrow> series option" where
  "converted (Datetime64 U_ns xs) = Some (dt_strftime xs)"
| "converted (Timedelta64 U_ns xs) = Some (astype_str xs)"
| "converted s = None"

text \<open>\<open>pd.isna\<close> on a Python object.\<close>

fun isna :: "pyval \<Rightarrow> bool" where
  "isna PyNone = True"
| "isna (PyFloat w) = isnan w"
| "isna PyNaT = True"
| "isna v = False"

text \<open>
  \<open>s.where(pd.notnull(s), None)\<close>, column by column. pandas replaces \<open>None\<close> by the missing
  value of the column's dtype unless the dtype is \<open>object\<close>: a \<open>float64\<close> column gets
  \<open>NaN\<close> where it had \<open>NaN\<close>, a datetime or timedelta column \<open>NaT\<close> where it had
  \<open>NaT\<close>; integer and boolean columns have no missing cell. Only an \<open>object\<close> column
  receives \<open>None\<close>. (The result of an \<open>object\<close> column is kept as it is: a parsed
  worksheet has no \<open>object\<close> column whose cells are all numbers or missing, the one case
  in which pandas 2.x would infer a numeric dtype for the result.)
\<close>

fun where_notnull_None :: "series \<Rightarrow> series" where
  "where_notnull_None (Object xs) = Object (map (\<lambda>v. if isna v then PyNone else v) xs)"
| "where_notnull_None (Float64 xs) = Float64 (map (\<lambda>w. if isnan w then nan else w) xs)"
| "where_notnull_None (Datetime64 u xs) = Datetime64 u xs"
| "where_notnull_None (Timedelta64 u xs) = Timedelta64 u xs"
| "where_notnull_None (Int64 xs) = Int64 xs"
| "where_notnull_None (Boolean xs) = Boolean xs"

definition df_where_notnull_None :: "dataframe \<Rightarrow> dataframe" where
  "df_where_notnull_None df = df\<lparr>cols := map (\<lambda>(l, s). (l, where_notnull_None s)) (cols df)\<rparr>"

text \<open>\<open>df.to_dict(orient='records')\<close>: the cells as Python objects, one dict per row (none
  for a frame without columns).\<close>

fun boxed :: "series \<Rightarrow> pyval list" where
  "boxed (Datetime64 u xs) = map (\<lambda>x. case x of None \<Rightarrow> PyNaT | Some t \<Rightarrow> PyTimestamp t) xs"
| "boxed (Timedelta64 u xs) = map (\<lambda>x. case x of None \<Rightarrow> PyNaT | Some d \<Rightarrow> PyTimedelta d) xs"
| "boxed (Float64 xs) = map PyFloat xs"
| "boxed (Int64 xs) = map (\<lambda>w. PyInt (sint w)) xs"
| "boxed (Boolean xs) = map PyBool xs"
| "boxed (Object xs) = xs"

fun dict_set :: "pydict \<Rightarrow> pystr \<Rightarrow> pyval \<Rightarrow> pydict" where
  "dict_set [] k v = [(k, v)]"
| "dict_set ((k', v') # d) k v = (if k' = k then (k, v) # d else (k', v') # dict_set d k v)"

definition py_dict :: "(pystr \<times> pyval) list \<Rightarrow> pydict" where
  "py_dict kvs = foldl (\<lambda>d (k, v). dict_set d k v) [] kvs"

definition to_dict_records :: "dataframe \<Rightarrow> pydict list" where
  "to_dict_records df =
     (if cols df = [] then []
      else map (\<lambda>i. py_dict (map (\<lambda>(l, s). (l, boxed s ! i)) (cols df))) [0..<nrows df])"

text \<open>\<open>d.get(k)\<close>.\<close>

definition dict_get :: "pydict \<Rightarrow> pystr \<Rightarrow> pyval option" where
  "dict_get d k = map_of d k"

subsection \<open>The normalizer: \<open>convert_to_json_safe\<close>\<close>

text \<open>
  The object store holds the DataFrame objects; a reference is an index into it, and a new
  object is appended. \<open>df.copy()\<close> allocates \<open>df_copy\<close>, the loop assigns columns of
  \<open>df_copy\<close> in place, and \<open>where\<close> returns a new frame to which \<open>df_copy\<close> is rebound.
  \<open>df_copy[col].dtype\<close> raises \<open>AttributeError\<close> when the label is carried by more than
  one column (the selection is then a DataFrame).
\<close>

type_synonym heap = "dataframe list"

fun convert_columns :: "pystr list \<Rightarrow> heap \<Rightarrow> nat \<Rightarrow> py_error + heap" where
  "convert_columns [] h c = Inr h"
| "convert_columns (col # rest) h c =
     (case getitem (h ! c) col of
        [s] \<Rightarrow>
          (case converted s of
             Some s' \<Rightarrow> convert_columns rest (h[c := setitem (h ! c) col s']) c
           | None \<Rightarrow> convert_columns rest h c)
      | _ \<Rightarrow> Inl AttributeError)"

definition convert_to_json_safe :: "heap \<Rightarrow> nat \<Rightarrow> (py_error + pydict list) \<times> heap" where
  "convert_to_json_safe h df =
     (let df_copy = length h;
          h1 = h @ [h ! df]
      in case convert_columns (columns_of (h1 ! df_copy)) h1 df_copy of
           Inl e \<Rightarrow> (Inl e, h1)
         | Inr h2 \<Rightarrow>
             (let df_copy' = length h2;
                  h3 = h2 @ [df_where_notnull_None (h2 ! df_copy)]
              in (Inr (to_dict_records (h3 ! df_copy')), h3)))"

subsection \<open>The environment\<close>

record export_metadata =
  source :: pystr
  sheet :: pystr
  exported_at :: pystr
  total_records :: int
  columns :: "pystr list"

record export_document =
  metadata :: export_metadata
  data :: "pydict list"

text \<open>
  A file written by \<open>json.dump\<close> holds the serialisation of a document, which is a function
  of the document; a dump that raised part-way leaves partial text.
\<close>

datatype file_content = Document export_document | Partial_text

text \<open>
  The workbook at \<open>EXCEL_PATH\<close>: unreadable, or for each sheet name the table pandas builds
  from the sheet with the header on row \<open>HEADER_ROW\<close>.
\<close>

datatype excel_file = Unreadable | Workbook "(pystr \<times> dataframe) list"

text \<open>
  \<open>denied\<close> are the paths the operating system refuses to create or to open for writing.
  Directories and files are keyed by the path string handed to the operating system: its
  resolution of \<open>..\<close> and of links is not modelled.
\<close>

record world =
  platform :: platform
  script_file :: pystr
  has_pandas :: bool
  has_openpyxl :: bool
  excel :: "excel_file option"
  clock :: pystr
  is_dir :: "pystr \<Rightarrow> bool"
  files :: "pystr \<Rightarrow> file_content option"
  denied :: "pystr \<Rightarrow> bool"

definition path_exists :: "world \<Rightarrow> path \<Rightarrow> bool" where
  "path_exists w p = (is_dir w (path_str p) \<or> files w (path_str p) \<noteq> None)"

text \<open>\<open>p.mkdir(parents=True)\<close>.\<close>

definition mkdir_parents :: "world \<Rightarrow> path \<Rightarrow> py_error + world" where
  "mkdir_parents w p =
     (if denied w (path_str p) then Inl OSError
      else Inr (w\<lparr>is_dir := (\<lambda>q. q \<in> set (map path_str (with_ancestors p)) \<or> is_dir w q)\<rparr>))"

text \<open>Whether \<open>open(p, 'w')\<close> succeeds.\<close>

definition can_open_w :: "world \<Rightarrow> path \<Rightarrow> bool" where
  "can_open_w w p =
     (\<not> denied w (path_str p) \<and> \<not> is_dir w (path_str p) \<and> is_dir w (path_str (path_parent p)))"

text \<open>\<open>json.dump\<close> raises \<open>TypeError\<close> on an object that is not a JSON scalar.\<close>

fun json_serializable :: "pyval \<Rightarrow> bool" where
  "json_serializable PyNone = True"
| "json_serializable (PyBool b) = True"
| "json_serializable (PyInt i) = True"
| "json_serializable (PyFloat w) = True"
| "json_serializable (PyStr s) = True"
| "json_serializable v = False"

definition json_dump :: "export_document \<Rightarrow> py_error + file_content" where
  "json_dump doc =
     (if list_all (list_all (\<lambda>(k, v). json_serializable v)) (data doc)
      then Inr (Document doc) else Inl TypeError)"

subsection \<open>The pipeline stages\<close>

definition check_dependencies :: "world \<Rightarrow> bool" where
  "check_dependencies w =
     (let missing = (if has_pandas w then [] else [ascii ''pandas''])
                    @ (if has_openpyxl w then [] else [ascii ''openpyxl''])
      in if missing \<noteq> [] then False else True)"

definition check_file_exists :: "world \<Rightarrow> bool" where
  "check_file_exists w = (if excel w = None then False else True)"

definition ensure_output_dir :: "world \<Rightarrow> py_error + world" where
  "ensure_output_dir w =
     (if \<not> path_exists w (OUTPUT_DIR (platform w) (script_file w))
      then mkdir_parents w (OUTPUT_DIR (platform w) (script_file w))
      else Inr w)"

text \<open>
  \<open>pd.read_excel\<close> with \<open>usecols=REQUIRED_COLUMNS\<close> raises when the file or the sheet
  cannot be read or a required column index is out of bounds; \<open>read_excel_data\<close> catches
  every exception and returns \<open>None\<close>.
\<close>

definition read_excel_data :: "world \<Rightarrow> dataframe option" where
  "read_excel_data w =
     (case excel w of
        None \<Rightarrow> None
      | Some Unreadable \<Rightarrow> None
      | Some (Workbook sheets) \<Rightarrow>
          (case map_of sheets SHEET_NAME of
             None \<Rightarrow> None
           | Some df \<Rightarrow>
               if list_all (\<lambda>i. i < length (cols df)) REQUIRED_COLUMNS
               then Some (df\<lparr>cols := map (\<lambda>i. cols df ! i) REQUIRED_COLUMNS\<rparr>)
               else None))"

definition validate_columns :: "dataframe \<Rightarrow> py_error + bool" where
  "validate_columns df = (case columns_of df of [] \<Rightarrow> Inl IndexError | first_col # _ \<Rightarrow> Inr True)"

definition save_to_json :: "world \<Rightarrow> pydict list \<Rightarrow> pystr \<Rightarrow> bool \<times> world" where
  "save_to_json w records filename =
     (let output_path = truediv (OUTPUT_DIR (platform w) (script_file w)) filename in
      if \<not> sublist (ascii ''output'') (path_str output_path) then (False, w)
      else
        (let output_data =
               \<lparr>metadata = \<lparr>source = path_name (EXCEL_PATH (platform w)), sheet = SHEET_NAME,
                            exported_at = clock w, total_records = int (length records),
                            columns = EXPECTED_COLUMNS\<rparr>,
                data = records\<rparr>
         in if \<not> can_open_w w output_path then (False, w)
            else
              (case json_dump output_data of
                 Inl e \<Rightarrow> (False, w\<lparr>files := (files w)(path_str output_path \<mapsto> Partial_text)\<rparr>)
               | Inr c \<Rightarrow> (True, w\<lparr>files := (files w)(path_str output_path \<mapsto> c)\<rparr>))))"

text \<open>
  \<open>main\<close> returns the exit code, or lets an exception escape. The frame returned by
  \<open>read_excel_data\<close> is the only object in the store when it is normalised.
\<close>

definition main :: "world \<Rightarrow> (py_error + int) \<times> world" where
  "main w =
     (if \<not> check_dependencies w then (Inr 1, w)
      else if \<not> check_file_exists w then (Inr 1, w)
      else
        (case ensure_output_dir w of
           Inl e \<Rightarrow> (Inl e, w)
         | Inr w1 \<Rightarrow>
             (case read_excel_data w1 of
                None \<Rightarrow> (Inr 1, w1)
              | Some df \<Rightarrow>
                  (case validate_columns df of
                     Inl e \<Rightarrow> (Inl e, w1)
                   | Inr ok \<Rightarrow>
                       if nrows df = 0 then (Inr 0, snd (save_to_json w1 [] (ascii ''raw_data.json'')))
                       else
                         (case fst (convert_to_json_safe [df] 0) of
                            Inl e \<Rightarrow> (Inl e, w1)
                          | Inr records \<Rightarrow>
                              (Inr 0, snd (save_to_json w1 records (ascii ''raw_data.json''))))))))"

text \<open>\<open>sys.exit(main())\<close>: an uncaught exception ends the process with status 1.\<close>

definition exit_status :: "py_error + int \<Rightarrow> int" where
  "exit_status r = (case r of Inl e \<Rightarrow> 1 | Inr code \<Rightarrow> code)"

subsection \<open>Predicates used in the properties\<close>

text \<open>
  The shape \<open>YYYY-MM-DD HH:MM:SS\<close> of a string (45, 32 and 58 are the code points of
  the hyphen, the space and the colon), and the calendar fields a \<open>Timestamp\<close> of
  nanosecond resolution can hold (pandas bounds it to the years 1677 to 2262).
\<close>

definition is_digit :: "nat \<Rightarrow> bool" where
  "is_digit c = (48 \<le> c \<and> c \<le> 57)"

fun is_ymd_hms :: "pystr \<Rightarrow> bool" where
  "is_ymd_hms [y1, y2, y3, y4, a, m1, m2, b, d1, d2, c, h1, h2, e, n1, n2, f, s1, s2] =
     (list_all is_digit [y1, y2, y3, y4, m1, m2, d1, d2, h1, h2, n1, n2, s1, s2]
      \<and> a = 45 \<and> b = 45 \<and> c = 32 \<and> e = 58 \<and> f = 58)"
| "is_ymd_hms s = False"

definition valid_timestamp :: "timestamp \<Rightarrow> bool" where
  "valid_timestamp t =
     (1677 \<le> year t \<and> year t \<le> 2262 \<and> 1 \<le> month t \<and> month t \<le> 12 \<and> 1 \<le> day t \<and> day t \<le> 31
      \<and> hour t < 24 \<and> minute t < 60 \<and> second t < 60 \<and> nanosecond t < 1000000000)"

subsection \<open>Auxiliary functions of the proofs\<close>

text \<open>
  What the loop of \<open>convert_to_json_safe\<close> computes for one column (\<open>conv\<close>), for the
  columns whose labels it has visited (\<open>conv_on\<close>) and, with the \<open>where\<close> that follows,
  for the whole frame (\<open>normalized\<close>); and the path that \<open>main\<close> writes to.
\<close>

definition conv :: "series \<Rightarrow> series" where
  "conv s = (case converted s of Some s' \<Rightarrow> s' | None \<Rightarrow> s)"

definition conv_on :: "pystr list \<Rightarrow> (pystr \<times> series) list \<Rightarrow> (pystr \<times> series) list" where
  "conv_on ls cs = map (\<lambda>(l, s). if l \<in> set ls then (l, conv s) else (l, s)) cs"

definition normalized :: "dataframe \<Rightarrow> dataframe" where
  "normalized df = df\<lparr>cols := map (\<lambda>(l, s). (l, where_notnull_None (conv s))) (cols df)\<rparr>"

definition output_file :: "world \<Rightarrow> pystr" where
  "output_file w = path_str (truediv (OUTPUT_DIR (platform w) (script_file w)) (ascii ''raw_data.json''))"

subsection \<open>Example inputs\<close>

text \<open>
  A script location, worksheets and environments on which the properties are evaluated.
\<close>

text \<open>The two platforms; the lower-casing of the ASCII letters stands for \<open>str.lower\<close>.\<close>

definition ascii_lower :: "pystr \<Rightarrow> pystr" where
  "ascii_lower s = map (\<lambda>c. if 65 \<le> c \<and> c \<le> 90 then c + 32 else c) s"

definition posix :: platform where
  "posix = \<lparr>windows = False, lower = ascii_lower\<rparr>"

definition windows_nt :: platform where
  "windows_nt = \<lparr>windows = True, lower = ascii_lower\<rparr>"

text \<open>The location of the script on either platform.\<close>

definition example_script :: pystr where
  "example_script = ascii ''/srv/jedco/scripts/data_reader.py''"

definition example_win_script :: pystr where
  "example_win_script =
     ascii ''C:'' @ [92] @ ascii ''proj'' @ [92] @ ascii ''scripts'' @ [92] @ ascii ''data_reader.py''"

text \<open>A sheet of sixteen columns and one data row, and one with no data row.\<close>

definition example_df :: dataframe where
  "example_df =
     \<lparr>nrows = 1,
      cols = (hd EXPECTED_COLUMNS, Int64 [1])
             # map (\<lambda>l. (l, Object [PyStr (ascii ''-'')])) (tl EXPECTED_COLUMNS)\<rparr>"

definition empty_df :: dataframe where
  "empty_df = \<lparr>nrows = 0, cols = map (\<lambda>l. (l, Object [])) EXPECTED_COLUMNS\<rparr>"

text \<open>The output directory exists and nothing has been exported yet.\<close>

definition example_world :: world where
  "example_world =
     \<lparr>platform = posix, script_file = example_script, has_pandas = True, has_openpyxl = True,
      excel = Some (Workbook [(SHEET_NAME, example_df)]),
      clock = ascii ''2026-01-24T10:00:00'',
      is_dir = (\<lambda>q. q = ascii ''/srv/jedco/output'' \<or> q = ascii ''/tmp''),
      files = (\<lambda>q. None),
      denied = (\<lambda>q. False)\<rparr>"

text \<open>The same, but the operating system refuses to open the export file for writing.\<close>

definition readonly_world :: world where
  "readonly_world = example_world\<lparr>denied := (\<lambda>q. q = ascii ''/srv/jedco/output/raw_data.json'')\<rparr>"

text \<open>The sheet has no data row and the output directory does not exist yet;
  \<open>created_world\<close> is that environment once the directory has been made.\<close>

definition empty_sheet_world :: world where
  "empty_sheet_world =
     example_world\<lparr>excel := Some (Workbook [(SHEET_NAME, empty_df)]),
                   is_dir := (\<lambda>q. q = ascii ''/srv/jedco'')\<rparr>"

definition created_world :: world where
  "created_world =
     empty_sheet_world\<lparr>is_dir :=
       (\<lambda>q. q \<in> set (map path_str (with_ancestors (OUTPUT_DIR (platform empty_sheet_world) (script_file empty_sheet_world))))
            \<or> is_dir empty_sheet_world q)\<rparr>"

text \<open>The environment left by a run in \<open>example_world\<close>, one day later.\<close>

definition later_world :: world where
  "later_world = (snd (main example_world))\<lparr>clock := ascii ''2026-01-25T10:00:00''\<rparr>"

text \<open>The records and the document exported from \<open>example_df\<close>.\<close>

definition example_records :: "pydict list" where
  "example_records =
     [(hd EXPECTED_COLUMNS, PyInt 1) # map (\<lambda>l. (l, PyStr (ascii ''-''))) (tl EXPECTED_COLUMNS)]"

definition example_document :: "pystr \<Rightarrow> export_document" where
  "example_document t =
     \<lparr>metadata = \<lparr>source = path_name (EXCEL_PATH posix), sheet = SHEET_NAME, exported_at = t,
                  total_records = 1, columns = EXPECTED_COLUMNS\<rparr>,
      data = example_records\<rparr>"

text \<open>A row of missing cells in a float, a duration and a text column.\<close>

definition missing_frame :: dataframe where
  "missing_frame =
     \<lparr>nrows = 1,
      cols = [(ascii ''n'', Float64 [nan]), (ascii ''d'', Timedelta64 U_ns [None]),
              (ascii ''s'', Object [PyFloat nan])]\<rparr>"

text \<open>A frame with a date column and a number column.\<close>

definition example_timestamp :: timestamp where
  "example_timestamp =
     \<lparr>year = 2026, month = 3, day = 24, hour = 9, minute = 5, second = 0, nanosecond = 0\<rparr>"

definition example_frame :: dataframe where
  "example_frame =
     \<lparr>nrows = 2,
      cols = [(ascii ''t'', Datetime64 U_ns [Some example_timestamp, None]),
              (ascii ''n'', Int64 [7, 8])]\<rparr>"

text \<open>Date and time cells outside a \<open>datetime64[ns]\<close> column: times of day (which
  pandas reads as \<open>datetime.time\<close> objects in an \<open>object\<close> column), a date column of
  microsecond resolution, and dates in a column that also holds text.\<close>

definition time_frame :: dataframe where
  "time_frame =
     \<lparr>nrows = 2,
      cols = [(ascii ''departure'', Object [PyTime (ascii ''09:05:00''), PyTime (ascii ''10:30:00'')]),
              (ascii ''arrival'', Datetime64 U_us [Some example_timestamp, Some example_timestamp]),
              (ascii ''checked'', Object [PyTimestamp example_timestamp, PyStr (ascii ''-'')])]\<rparr>"

section \<open>Properties\<close>

subsection \<open>Paths and the output guard\<close>

text \<open>
  A segment of a path occurs in the string of the path; on either platform
  \<open>OUTPUT_DIR\<close> ends in the segment \<open>output\<close>, and joining a name without drive and
  root keeps the segments of the left operand.
\<close>

lemma sublist_join: "x \<in> set xs \<Longrightarrow> sublist x (join sep xs)"
proof (induction sep xs rule: join.induct)
  case (1 sep)
  then show ?case by simp
next
  case (2 sep y)
  then show ?case by simp
next
  case (3 sep y z zs)
  show ?case
  proof (cases "x = y")
    case True
    then show ?thesis by simp
  next
    case False
    with 3 have "sublist x (join sep (z # zs))" by simp
    then obtain ps ss where "join sep (z # zs) = ps @ x @ ss"
      by (auto simp: sublist_def)
    then have "join sep (y # z # zs) = (y @ sep @ ps) @ x @ ss" by simp
    then show ?thesis unfolding sublist_def by blast
  qed
qed

lemmas splitroot_defs = posix_splitroot_def nt_splitroot_def split_extended_path_def
  find_from_def is_drive_letter_def path_sep_def

lemma Path_output:
  "Path pf (ascii ''output'')
     = \<lparr>flavour = pf, drive = [], root = [], segments = [ascii ''output'']\<rparr>"
  by (cases "windows pf") (simp_all add: Path_def splitroot_defs ascii_def)

lemma flavour_Path [simp]: "flavour (Path pf s) = pf"
  by (simp add: Path_def Let_def case_prod_unfold)

lemma flavour_path_parent [simp]: "flavour (path_parent p) = flavour p"
  by (simp add: path_parent_def)

lemma flavour_PROJECT_DIR [simp]: "flavour (PROJECT_DIR pf file) = pf"
  by (simp add: PROJECT_DIR_def SCRIPT_DIR_def)

lemma OUTPUT_DIR_eq:
  "OUTPUT_DIR pf file
     = (PROJECT_DIR pf file)\<lparr>segments := segments (PROJECT_DIR pf file) @ [ascii ''output'']\<rparr>"
  by (simp add: OUTPUT_DIR_def truediv_def Path_output)

lemma guard_relative:
  assumes "drive (Path pf filename) = []" "root (Path pf filename) = []"
  shows "sublist (ascii ''output'') (path_str (truediv (OUTPUT_DIR pf file) filename))"
proof -
  let ?p = "truediv (OUTPUT_DIR pf file) filename"
  have seg: "segments ?p
      = segments (PROJECT_DIR pf file) @ [ascii ''output''] @ segments (Path pf filename)"
    using assms by (simp add: truediv_def OUTPUT_DIR_eq)
  then have "ascii ''output'' \<in> set (segments ?p)" by simp
  then have "sublist (ascii ''output'') (join [path_sep (flavour ?p)] (segments ?p))"
    by (rule sublist_join)
  then obtain ps ss where j: "join [path_sep (flavour ?p)] (segments ?p) = ps @ ascii ''output'' @ ss"
    by (auto simp: sublist_def)
  let ?s = "drive ?p @ root ?p @ join [path_sep (flavour ?p)] (segments ?p)"
  have s: "?s = (drive ?p @ root ?p @ ps) @ ascii ''output'' @ ss"
    by (simp add: j)
  then have "?s \<noteq> []" by (simp add: ascii_def)
  then have "path_str ?p = ?s" unfolding path_str_def Let_def by (rule if_not_P)
  with s show ?thesis unfolding sublist_def by metis
qed

text \<open>
  The filenames that \<open>pathlib\<close> parses without drive and root: on POSIX those that do
  not start with \<open>/\<close>; on Windows those that start neither with a separator (\<open>/\<close> or
  the backslash) nor with a drive letter and a colon.
\<close>

lemma posix_relative_iff:
  assumes "\<not> windows pf"
  shows "(drive (Path pf s) = [] \<and> root (Path pf s) = []) = (\<not> prefix (ascii ''/'') s)"
  using assms by (cases s) (auto simp: Path_def posix_splitroot_def Let_def ascii_def)

lemma not_drive_letter_sep [simp]: "\<not> is_drive_letter 92"
  by (simp add: is_drive_letter_def)

lemma nt_splitroot_no_sep:
  assumes "take 1 part \<noteq> [92]"
  shows "nt_splitroot part =
     (if take 1 (drop 1 part) = [58] \<and> list_ex is_drive_letter (take 1 part)
      then (if take 1 (drop 2 part) = [92]
            then (take 2 part, [92], dropWhile (\<lambda>c. c = 92) (drop 2 part))
            else (take 2 part, [], drop 2 part))
      else ([], [], part))"
  using assms by (auto simp: nt_splitroot_def Let_def)

lemma split_extended_path_Nil:
  "split_extended_path s = (pre, p) \<Longrightarrow> pre = [] \<Longrightarrow> p = s"
  by (auto simp: split_extended_path_def Let_def split: if_splits)

lemma nt_splitroot_sep:
  assumes "take 1 part = [92]"
  shows "fst (nt_splitroot part) \<noteq> [] \<or> fst (snd (nt_splitroot part)) \<noteq> []"
proof (cases "take 1 (drop 1 part) = [92]")
  case False
  with assms show ?thesis
    by (simp add: nt_splitroot_def Let_def)
next
  case True
  obtain pre p where sp: "split_extended_path part = (pre, p)"
    by (cases "split_extended_path part")
  define unc where "unc =
            (if take 1 (drop 1 p) = [92] \<and> take 1 p = [92] \<and> take 1 (drop 2 p) \<noteq> [92]
             then (case find_from 92 2 p of
                     None \<Rightarrow> None
                   | Some index \<Rightarrow>
                       (let index2 = find_from 92 (index + 1) p
                        in if index2 = Some (index + 1) then None
                           else (let i2 = (case index2 of None \<Rightarrow> length p | Some j \<Rightarrow> j)
                                 in Some (if pre \<noteq> [] then pre @ drop 1 (take i2 p)
                                          else take i2 p,
                                          [92::nat], drop (i2 + 1) p))))
             else None)"
  have eq: "nt_splitroot part =
     (case unc of
           Some r \<Rightarrow> r
         | None \<Rightarrow>
             (let has_drv = (take 1 (drop 1 p) = [58] \<and> list_ex is_drive_letter (take 1 p));
                  drv = (if has_drv then take 2 p else []);
                  part1 = (if has_drv then drop 2 p else p);
                  first1 = (if has_drv then take 1 (drop 2 p) else take 1 p)
              in if first1 = [92] then (pre @ drv, [92], dropWhile (\<lambda>c. c = 92) part1)
                 else (pre @ drv, [], part1)))"
    using assms True sp unfolding nt_splitroot_def unc_def Let_def by simp
  show ?thesis
  proof (cases unc)
    case (Some r)
    then have "fst (snd r) = [92]"
      unfolding unc_def Let_def by (auto split: if_splits option.splits)
    with Some eq show ?thesis by simp
  next
    case None
    show ?thesis
    proof (cases "pre = []")
      case False
      with None eq show ?thesis by (simp add: Let_def)
    next
      case pre: True
      with sp have "p = part" by (rule split_extended_path_Nil)
      with None eq assms pre show ?thesis by (simp add: Let_def)
    qed
  qed
qed

lemma windows_relative_iff:
  assumes "windows pf"
  shows "(drive (Path pf s) = [] \<and> root (Path pf s) = [])
         = (\<not> prefix (ascii ''/'') s \<and> \<not> prefix [92] s
            \<and> \<not> (list_ex is_drive_letter (take 1 s) \<and> take 1 (drop 1 s) = ascii '':''))"
proof -
  define part where "part = map (\<lambda>c. if c = 47 then 92 else c) s"
  have dr: "drive (Path pf s) = fst (nt_splitroot part)"
    "root (Path pf s) = fst (snd (nt_splitroot part))"
    using assms by (simp_all add: Path_def Let_def part_def case_prod_unfold)
  show ?thesis
  proof (cases "take 1 part = [92]")
    case True
    then have "prefix (ascii ''/'') s \<or> prefix [92] s"
      unfolding part_def by (cases s) (auto simp: ascii_def split: if_splits)
    with nt_splitroot_sep [OF True] dr show ?thesis by auto
  next
    case False
    then have ns: "\<not> prefix (ascii ''/'') s" "\<not> prefix [92] s"
      unfolding part_def by (cases s; auto simp: ascii_def)+
    have t1: "take 1 part = take 1 s"
      using False unfolding part_def by (cases s) (auto split: if_splits)
    have t2: "take 1 (drop 1 part) = [58] \<longleftrightarrow> take 1 (drop 1 s) = ascii '':''"
      unfolding part_def by (cases s; cases "tl s") (auto simp: ascii_def)
    have "fst (nt_splitroot part) = [] \<and> fst (snd (nt_splitroot part)) = []
          \<longleftrightarrow> \<not> (take 1 (drop 1 part) = [58] \<and> list_ex is_drive_letter (take 1 part))"
      unfolding nt_splitroot_no_sep [OF False]
      by (cases part) auto
    with dr ns t1 t2 show ?thesis by auto
  qed
qed

lemmas path_defs = OUTPUT_DIR_def PROJECT_DIR_def SCRIPT_DIR_def path_parent_def truediv_def
  Path_def path_str_def posix_def windows_nt_def ascii_lower_def splitroot_defs ascii_def

lemma raw_data_relative:
  "drive (Path pf (ascii ''raw_data.json'')) = []" "root (Path pf (ascii ''raw_data.json'')) = []"
  by (cases "windows pf"; simp add: Path_def splitroot_defs ascii_def)+

lemma example_output_file:
  "truediv (OUTPUT_DIR posix example_script) (ascii ''raw_data.json'')
     = \<lparr>flavour = posix, drive = [], root = ascii ''/'',
        segments = [ascii ''srv'', ascii ''jedco'', ascii ''output'', ascii ''raw_data.json'']\<rparr>"
  by (simp add: example_script_def path_defs)

lemma example_output_str:
  "path_str (truediv (OUTPUT_DIR posix example_script) (ascii ''raw_data.json''))
     = ascii ''/srv/jedco/output/raw_data.json''"
  "path_str (path_parent (truediv (OUTPUT_DIR posix example_script) (ascii ''raw_data.json'')))
     = ascii ''/srv/jedco/output''"
  unfolding example_output_file
  by (simp_all add: path_str_def path_sep_def posix_def path_parent_def ascii_def)

lemma dir_after_mkdir:
  "path_str (OUTPUT_DIR posix example_script) = ascii ''/srv/jedco/output''"
  by (simp add: example_script_def path_defs)

lemma example_ancestors:
  "map path_str (with_ancestors (OUTPUT_DIR posix example_script))
     = [ascii ''/'', ascii ''/srv'', ascii ''/srv/jedco'', ascii ''/srv/jedco/output'']"
  by (simp add: with_ancestors_def example_script_def path_defs)

lemma example_guard:
  "sublist (ascii ''output'') (path_str (truediv (OUTPUT_DIR posix example_script) (ascii ''raw_data.json'')))"
  by (rule guard_relative [OF raw_data_relative])

text \<open>
  Claim C2. For every filename argument, if the string of the output path
  \<open>OUTPUT_DIR / filename\<close> does not contain \<open>output\<close>, then \<open>save_to_json\<close> returns
  \<open>False\<close> and leaves the environment, and so the file system, as it was.
\<close>

theorem save_to_json_guard_refuses:
  "\<not> sublist (ascii ''output'')
       (path_str (truediv (OUTPUT_DIR (platform w) (script_file w)) filename))
   \<Longrightarrow> save_to_json w records filename = (False, w)"
  by (simp add: save_to_json_def Let_def)

text \<open>An absolute filename outside the output directory is refused.\<close>

theorem save_to_json_guard_refuses_witness:
  "\<not> sublist (ascii ''output'')
       (path_str (truediv (OUTPUT_DIR (platform example_world) (script_file example_world))
                          (ascii ''/tmp/x.json'')))
   \<and> save_to_json example_world [] (ascii ''/tmp/x.json'') = (False, example_world)"
proof -
  have g: "\<not> sublist (ascii ''output'')
       (path_str (truediv (OUTPUT_DIR (platform example_world) (script_file example_world))
                          (ascii ''/tmp/x.json'')))"
    by (simp add: example_world_def example_script_def path_defs sublist_code)
  from g save_to_json_guard_refuses [OF g, of "[]"] show ?thesis by simp
qed

text \<open>
  Claim C3, as stated, fails: the guard can refuse. On POSIX the absolute filename
  \<open>/tmp/x.json\<close> replaces \<open>OUTPUT_DIR\<close> in the join: the output path is
  \<open>/tmp/x.json\<close>, which does not contain \<open>output\<close>; the file could be opened, and
  \<open>save_to_json\<close> returns \<open>False\<close>. On Windows the filename \<open>D:x.json\<close>, which names
  another drive, does the same.
\<close>

theorem guard_refuses_anchored_filename:
  "\<not> sublist (ascii ''output'')
       (path_str (truediv (OUTPUT_DIR posix example_script) (ascii ''/tmp/x.json'')))
   \<and> can_open_w example_world (truediv (OUTPUT_DIR posix example_script) (ascii ''/tmp/x.json''))
   \<and> fst (save_to_json example_world [] (ascii ''/tmp/x.json'')) = False
   \<and> path_str (truediv (OUTPUT_DIR windows_nt example_win_script) (ascii ''D:x.json''))
       = ascii ''D:x.json''
   \<and> \<not> sublist (ascii ''output'')
       (path_str (truediv (OUTPUT_DIR windows_nt example_win_script) (ascii ''D:x.json'')))"
  by (simp add: save_to_json_def can_open_w_def example_world_def example_script_def
      example_win_script_def path_defs sublist_code)

text \<open>
  Claim C3, amended. On either platform, for every location of the script and every
  filename argument that \<open>pathlib\<close> parses without a drive and without a root (a relative
  filename: on POSIX one that does not start with \<open>/\<close>, on Windows one that starts
  neither with a separator nor with a drive letter and a colon), also one containing \<open>..\<close>,
  the string of \<open>OUTPUT_DIR / filename\<close> contains \<open>output\<close>: the substring check of
  \<open>save_to_json\<close> passes and the guard does not refuse.
\<close>

theorem guard_passes_relative_filename:
  "drive (Path pf filename) = [] \<Longrightarrow> root (Path pf filename) = []
   \<Longrightarrow> sublist (ascii ''output'') (path_str (truediv (OUTPUT_DIR pf file) filename))"
  by (rule guard_relative)

text \<open>
  The filename \<open>../x.json\<close>, which leaves the output directory, passes the guard on
  both platforms.
\<close>

theorem guard_passes_relative_filename_witness:
  "drive (Path posix (ascii ''../x.json'')) = [] \<and> root (Path posix (ascii ''../x.json'')) = []
   \<and> sublist (ascii ''output'')
       (path_str (truediv (OUTPUT_DIR posix example_script) (ascii ''../x.json'')))
   \<and> drive (Path windows_nt (ascii ''../x.json'')) = []
   \<and> root (Path windows_nt (ascii ''../x.json'')) = []
   \<and> sublist (ascii ''output'')
       (path_str (truediv (OUTPUT_DIR windows_nt example_win_script) (ascii ''../x.json'')))"
proof -
  have p: "drive (Path posix (ascii ''../x.json'')) = []" "root (Path posix (ascii ''../x.json'')) = []"
    by (simp_all add: path_defs)
  have n: "drive (Path windows_nt (ascii ''../x.json'')) = []"
    "root (Path windows_nt (ascii ''../x.json'')) = []"
    by (simp_all add: path_defs)
  from p n guard_passes_relative_filename [OF p, of example_script]
    guard_passes_relative_filename [OF n, of example_win_script]
  show ?thesis by simp
qed

subsection \<open>The writer\<close>

text \<open>When \<open>save_to_json\<close> returns \<open>True\<close> it has stored the envelope at the output path.\<close>

lemma save_to_json_True:
  assumes "fst (save_to_json w records filename)"
  shows "snd (save_to_json w records filename) =
     w\<lparr>files := (files w)(path_str (truediv (OUTPUT_DIR (platform w) (script_file w)) filename) \<mapsto>
        Document \<lparr>metadata = \<lparr>source = path_name (EXCEL_PATH (platform w)), sheet = SHEET_NAME,
                            exported_at = clock w, total_records = int (length records),
                            columns = EXPECTED_COLUMNS\<rparr>,
                  data = records\<rparr>)\<rparr>"
  using assms
  by (auto simp: save_to_json_def Let_def json_dump_def split: if_splits sum.splits)

lemma save_to_json_written:
  assumes "files (snd (save_to_json w records filename)) q = Some (Document d)"
    and "files w q \<noteq> Some (Document d)"
  shows "data d = records"
  using assms
  by (auto simp: save_to_json_def Let_def json_dump_def split: if_splits)

lemma example_json_dump:
  "json_dump (example_document t) = Inr (Document (example_document t))"
  by (simp add: json_dump_def example_document_def example_records_def EXPECTED_COLUMNS_def)

lemma example_save:
  assumes "platform w = posix" "script_file w = example_script"
    and "can_open_w w (truediv (OUTPUT_DIR posix example_script) (ascii ''raw_data.json''))"
  shows "save_to_json w example_records (ascii ''raw_data.json'')
     = (True, w\<lparr>files := (files w)(ascii ''/srv/jedco/output/raw_data.json'' \<mapsto>
                  Document (example_document (clock w)))\<rparr>)"
proof -
  have p: "path_str (truediv (OUTPUT_DIR posix example_script) (ascii ''raw_data.json''))
           = ascii ''/srv/jedco/output/raw_data.json''"
    unfolding example_output_file by (simp add: path_str_def path_sep_def posix_def ascii_def)
  have len: "int (length example_records) = 1" by (simp add: example_records_def)
  have doc: "\<lparr>metadata = \<lparr>source = path_name (EXCEL_PATH posix), sheet = SHEET_NAME,
                exported_at = clock w, total_records = 1, columns = EXPECTED_COLUMNS\<rparr>,
                data = example_records\<rparr> = example_document (clock w)"
    by (simp add: example_document_def)
  show ?thesis
    using assms example_guard
    by (simp add: save_to_json_def Let_def len doc example_json_dump p)
qed

lemma example_can_open:
  assumes "is_dir w = is_dir example_world" "denied w = denied example_world"
  shows "can_open_w w (truediv (OUTPUT_DIR posix example_script) (ascii ''raw_data.json''))"
  by (simp add: can_open_w_def example_output_str assms)
     (simp add: example_world_def ascii_def)

text \<open>
  Claim C4. In every export document that \<open>save_to_json\<close> writes, the metadata field
  \<open>columns\<close> is the fixed list \<open>EXPECTED_COLUMNS\<close> of sixteen entries, whatever the keys of
  the records passed in, that is whatever column headers were observed in the worksheet.
\<close>

theorem written_columns_are_expected:
  assumes "fst (save_to_json w records filename)"
  shows "\<exists>doc. files (snd (save_to_json w records filename))
              (path_str (truediv (OUTPUT_DIR (platform w) (script_file w)) filename))
                = Some (Document doc)
           \<and> columns (metadata doc) = EXPECTED_COLUMNS
           \<and> length (columns (metadata doc)) = 16"
  by (simp add: save_to_json_True [OF assms] EXPECTED_COLUMNS_def)

text \<open>A record whose only key is \<open>observed\<close> is exported under the sixteen expected columns.\<close>

theorem written_columns_are_expected_witness:
  "fst (save_to_json example_world [[(ascii ''observed'', PyInt 1)]] (ascii ''raw_data.json''))
   \<and> (\<exists>doc. files (snd (save_to_json example_world [[(ascii ''observed'', PyInt 1)]]
                            (ascii ''raw_data.json'')))
              (path_str (truediv (OUTPUT_DIR (platform example_world) (script_file example_world))
                                 (ascii ''raw_data.json''))) = Some (Document doc)
           \<and> columns (metadata doc) = EXPECTED_COLUMNS
           \<and> length (columns (metadata doc)) = 16)"
proof -
  have h: "fst (save_to_json example_world [[(ascii ''observed'', PyInt 1)]] (ascii ''raw_data.json''))"
    by (simp add: save_to_json_def can_open_w_def json_dump_def example_world_def
        example_script_def path_defs sublist_code)
  from h written_columns_are_expected [OF h] show ?thesis by blast
qed

text \<open>
  Claim C5. For every list of records passed to \<open>save_to_json\<close>, the envelope it writes
  holds these records as \<open>data\<close> and \<open>total_records\<close> is the length of \<open>data\<close>.
\<close>

theorem written_total_records_is_length:
  assumes "fst (save_to_json w records filename)"
  shows "\<exists>doc. files (snd (save_to_json w records filename))
              (path_str (truediv (OUTPUT_DIR (platform w) (script_file w)) filename)) = Some (Document doc)
           \<and> data doc = records
           \<and> total_records (metadata doc) = int (length (data doc))"
  by (simp add: save_to_json_True [OF assms])

theorem written_total_records_is_length_witness:
  "fst (save_to_json example_world example_records (ascii ''raw_data.json''))
   \<and> (\<exists>doc. files (snd (save_to_json example_world example_records (ascii ''raw_data.json'')))
              (path_str (truediv (OUTPUT_DIR (platform example_world) (script_file example_world)) (ascii ''raw_data.json'')))
                = Some (Document doc)
           \<and> data doc = example_records
           \<and> total_records (metadata doc) = int (length (data doc)))"
proof -
  have "can_open_w example_world (truediv (OUTPUT_DIR posix example_script) (ascii ''raw_data.json''))"
    by (simp add: can_open_w_def example_output_str)
       (simp add: example_world_def ascii_def)
  then have h: "fst (save_to_json example_world example_records (ascii ''raw_data.json''))"
    by (subst example_save) (simp_all add: example_world_def)
  from h written_total_records_is_length [OF h] show ?thesis by blast
qed

subsection \<open>The normalizer\<close>

text \<open>
  On a frame with distinct column labels the loop replaces every column by its conversion,
  and \<open>convert_to_json_safe\<close> returns the rows of the normalized frame. It leaves two new
  objects in the store: the converted copy and the frame returned by \<open>where\<close>.
\<close>

lemma converted_conv [simp]: "converted (conv s) = None"
  by (cases s rule: converted.cases) (simp_all add: conv_def dt_strftime_def astype_str_def)

lemma conv_idem [simp]: "conv (conv s) = conv s"
  by (simp add: conv_def [of "conv s"])

lemma getitem_unique:
  "distinct (map fst cs) \<Longrightarrow> (col, s) \<in> set cs \<Longrightarrow>
   map snd (filter (\<lambda>(l, s). l = col) cs) = [s]"
proof (induction cs)
  case Nil
  then show ?case by simp
next
  case (Cons a cs)
  obtain l t where a: "a = (l, t)" by (cases a)
  show ?case
  proof (cases "l = col")
    case True
    with Cons.prems a have "t = s" by (force simp: image_iff)
    moreover from True Cons.prems a have "filter (\<lambda>(l, s). l = col) cs = []"
      by (auto simp: filter_empty_conv image_iff)
    ultimately show ?thesis using a True by simp
  next
    case False
    with Cons a show ?thesis by auto
  qed
qed

lemma map_fst_conv_on [simp]: "map fst (conv_on ls cs) = map fst cs"
  by (induction cs) (auto simp: conv_on_def)

lemma conv_on_Nil [simp]: "conv_on [] cs = cs"
  by (induction cs) (auto simp: conv_on_def)

lemma replace_unique:
  assumes "distinct (map fst cs)" "(col, s) \<in> set cs"
  shows "map (\<lambda>(l, old). if l = col then (l, conv s) else (l, old)) cs = conv_on [col] cs"
  unfolding conv_on_def
proof (rule map_cong [OF refl])
  fix x assume x: "x \<in> set cs"
  obtain l t where lt: "x = (l, t)" by (cases x)
  have "l = col \<Longrightarrow> t = s"
    using assms x lt eq_key_imp_eq_value by fastforce
  then show "(case x of (l, old) \<Rightarrow> if l = col then (l, conv s) else (l, old)) =
             (case x of (l, s) \<Rightarrow> if l \<in> set [col] then (l, conv s) else (l, s))"
    using lt by auto
qed

lemma conv_on_Cons: "conv_on rest (conv_on [col] cs) = conv_on (col # rest) cs"
  by (induction cs) (auto simp: conv_on_def)

lemma conv_on_None:
  assumes "distinct (map fst cs)" "(col, s) \<in> set cs" "converted s = None"
  shows "conv_on [col] cs = cs"
  unfolding conv_on_def
proof (rule map_idI)
  fix x assume x: "x \<in> set cs"
  obtain l t where lt: "x = (l, t)" by (cases x)
  have "l = col \<Longrightarrow> t = s"
    using assms x lt eq_key_imp_eq_value by fastforce
  then show "(case x of (l, s) \<Rightarrow> if l \<in> set [col] then (l, conv s) else (l, s)) = x"
    using lt assms(3) by (auto simp: conv_def)
qed

lemma convert_columns_eq:
  assumes "c < length h" "distinct (columns_of (h ! c))" "set ls \<subseteq> set (columns_of (h ! c))"
  shows "convert_columns ls h c = Inr (h[c := (h ! c)\<lparr>cols := conv_on ls (cols (h ! c))\<rparr>])"
  using assms
proof (induction ls arbitrary: h)
  case Nil
  then show ?case by simp
next
  case (Cons col rest)
  let ?df = "h ! c"
  from Cons.prems obtain s where s: "(col, s) \<in> set (cols ?df)"
    by (auto simp: columns_of_def)
  with Cons.prems have gi: "getitem ?df col = [s]"
    by (simp add: getitem_def columns_of_def getitem_unique)
  have d: "distinct (map fst (cols ?df))"
    using Cons.prems by (simp add: columns_of_def)
  show ?case
  proof (cases "converted s")
    case None
    have "conv_on (col # rest) (cols ?df) = conv_on rest (cols ?df)"
      using conv_on_Cons [of rest col "cols ?df"] conv_on_None [OF d s None] by simp
    with None gi Cons show ?thesis by simp
  next
    case (Some s')
    then have s': "s' = conv s" by (simp add: conv_def)
    let ?h = "h[c := setitem ?df col s']"
    have mem: "col \<in> set (columns_of ?df)" using Cons.prems by simp
    have set_eq: "setitem ?df col s' = ?df\<lparr>cols := conv_on [col] (cols ?df)\<rparr>"
      using mem replace_unique [OF d s] by (simp add: setitem_def s')
    have hc: "?h ! c = ?df\<lparr>cols := conv_on [col] (cols ?df)\<rparr>"
      using Cons.prems set_eq by simp
    have "convert_columns rest ?h c = Inr (?h[c := (?h ! c)\<lparr>cols := conv_on rest (cols (?h ! c))\<rparr>])"
    proof (rule Cons.IH)
      show "c < length ?h" using Cons.prems by simp
      show "distinct (columns_of (?h ! c))" using Cons.prems hc by (simp add: columns_of_def)
      show "set rest \<subseteq> set (columns_of (?h ! c))" using Cons.prems hc by (simp add: columns_of_def)
    qed
    then show ?thesis
      using gi Some hc by (simp add: conv_on_Cons)
  qed
qed

lemma conv_on_all: "conv_on (map fst cs) cs = map (\<lambda>(l, s). (l, conv s)) cs"
  unfolding conv_on_def by (rule map_cong [OF refl]) force

lemma convert_to_json_safe_eq:
  assumes "r < length h" "distinct (columns_of (h ! r))"
  shows "convert_to_json_safe h r =
     (Inr (to_dict_records (normalized (h ! r))),
      h @ [(h ! r)\<lparr>cols := map (\<lambda>(l, s). (l, conv s)) (cols (h ! r))\<rparr>, normalized (h ! r)])"
proof -
  let ?h1 = "h @ [h ! r]"
  let ?c = "length h"
  have c: "?h1 ! ?c = h ! r" by simp
  have "convert_columns (columns_of (?h1 ! ?c)) ?h1 ?c =
        Inr (?h1[?c := (?h1 ! ?c)\<lparr>cols := conv_on (columns_of (?h1 ! ?c)) (cols (?h1 ! ?c))\<rparr>])"
    by (rule convert_columns_eq) (use assms c in auto)
  then have cc: "convert_columns (columns_of (h ! r)) ?h1 ?c =
        Inr (h @ [(h ! r)\<lparr>cols := map (\<lambda>(l, s). (l, conv s)) (cols (h ! r))\<rparr>])"
    by (simp add: columns_of_def conv_on_all)
  show ?thesis
    by (simp add: convert_to_json_safe_def Let_def cc nth_append normalized_def
        df_where_notnull_None_def comp_def case_prod_unfold)
qed

text \<open>The decimal digits of the fields of a timestamp.\<close>

declare dec.simps [simp del]

lemma dec1: "n < 10 \<Longrightarrow> dec n = [48 + n]"
  by (subst dec.simps) simp

lemma dec2: "10 \<le> n \<Longrightarrow> n < 100 \<Longrightarrow> dec n = [48 + n div 10, 48 + n mod 10]"
  by (subst dec.simps) (simp add: dec1)

lemma dec3: "100 \<le> n \<Longrightarrow> n < 1000 \<Longrightarrow> dec n = dec (n div 10) @ [48 + n mod 10]"
  by (subst dec.simps) simp

lemma dec4:
  assumes "1000 \<le> n" "n < 10000"
  shows "dec n = [48 + n div 1000, 48 + n div 100 mod 10, 48 + n div 10 mod 10, 48 + n mod 10]"
proof -
  have a: "dec n = dec (n div 10) @ [48 + n mod 10]"
    using assms by (subst dec.simps) simp
  have b: "dec (n div 10) = dec (n div 10 div 10) @ [48 + n div 10 mod 10]"
    using assms by (intro dec3) auto
  have c: "dec (n div 10 div 10) = [48 + n div 10 div 10 div 10, 48 + n div 10 div 10 mod 10]"
    using assms by (intro dec2) auto
  show ?thesis unfolding a b c by (simp add: div_mult2_eq [symmetric])
qed

lemma pad2_digits: "n < 100 \<Longrightarrow> pad2 n = [48 + n div 10, 48 + n mod 10]"
  by (cases "n < 10") (simp_all add: pad2_def dec1 dec2)

lemma strftime_shape:
  assumes "valid_timestamp t"
  shows "is_ymd_hms (strftime t)"
proof -
  have y: "1000 \<le> year t" "year t < 10000" and m: "month t < 100" and d: "day t < 100"
    and h: "hour t < 100" and n: "minute t < 100" and s: "second t < 100"
    using assms by (auto simp: valid_timestamp_def)
  have dig: "\<And>k. k < 10 \<Longrightarrow> is_digit (48 + k)" by (simp add: is_digit_def)
  have "is_digit (48 + year t div 1000)" using y by (intro dig) auto
  moreover have "is_digit (48 + month t div 10)" using m by (intro dig) auto
  moreover have "is_digit (48 + day t div 10)" using d by (intro dig) auto
  moreover have "is_digit (48 + hour t div 10)" using h by (intro dig) auto
  moreover have "is_digit (48 + minute t div 10)" using n by (intro dig) auto
  moreover have "is_digit (48 + second t div 10)" using s by (intro dig) auto
  ultimately show ?thesis
    by (simp add: strftime_def dec4 [OF y] pad2_digits m d h n s ascii_def dig)
qed

text \<open>A dict built from pairs with distinct keys holds the pairs in their order.\<close>

lemma dict_set_fresh: "k \<notin> fst ` set d \<Longrightarrow> dict_set d k v = d @ [(k, v)]"
  by (induction d) auto

lemma foldl_dict_set:
  "distinct (map fst (acc @ kvs)) \<Longrightarrow>
   foldl (\<lambda>d (k, v). dict_set d k v) acc kvs = acc @ kvs"
proof (induction kvs arbitrary: acc)
  case Nil
  then show ?case by simp
next
  case (Cons kv kvs)
  obtain k v where kv: "kv = (k, v)" by (cases kv)
  from Cons.prems kv have fresh: "k \<notin> fst ` set acc" by auto
  from Cons.prems kv have "distinct (map fst ((acc @ [(k, v)]) @ kvs))" by auto
  from Cons.IH [OF this] show ?case
    by (simp add: kv dict_set_fresh [OF fresh])
qed

lemma py_dict_distinct: "distinct (map fst kvs) \<Longrightarrow> py_dict kvs = kvs"
  using foldl_dict_set [of "[]" kvs] by (simp add: py_dict_def)

lemma map_of_mapped:
  assumes "distinct (map fst cs)" "(col, s) \<in> set cs"
  shows "map_of (map (\<lambda>(l, s). (l, f s)) cs) col = Some (f s)"
proof -
  have "distinct (map fst (map (\<lambda>(l, s). (l, f s)) cs))"
    using assms(1) by (simp add: comp_def case_prod_unfold)
  moreover have "(col, f s) \<in> set (map (\<lambda>(l, s). (l, f s)) cs)"
    using assms(2) by force
  ultimately show ?thesis by (rule map_of_is_SomeI)
qed

lemma normalized_cell:
  assumes "distinct (columns_of df)" "(col, s) \<in> set (cols df)" "i < nrows df"
  shows "dict_get (to_dict_records (normalized df) ! i) col
         = Some (boxed (where_notnull_None (conv s)) ! i)"
proof -
  let ?kvs = "map (\<lambda>(l, s). (l, boxed s ! i)) (cols (normalized df))"
  have d: "distinct (map fst (cols df))" using assms(1) by (simp add: columns_of_def)
  have kvs: "?kvs = map (\<lambda>(l, s). (l, boxed (where_notnull_None (conv s)) ! i)) (cols df)"
    by (simp add: normalized_def comp_def case_prod_unfold)
  have "map fst ?kvs = map fst (cols df)"
    unfolding kvs by (simp add: comp_def case_prod_unfold)
  then have "distinct (map fst ?kvs)" using d by simp
  then have "py_dict ?kvs = ?kvs" by (rule py_dict_distinct)
  moreover have "to_dict_records (normalized df) ! i = py_dict ?kvs"
    using assms(2,3) by (auto simp: to_dict_records_def normalized_def)
  ultimately show ?thesis
    using map_of_mapped [OF d assms(2)] by (simp add: dict_get_def kvs)
qed

lemma nrows_len: "wf_df df \<Longrightarrow> (col, s) \<in> set (cols df) \<Longrightarrow> series_len s = nrows df"
  by (auto simp: wf_df_def list_all_iff)

lemmas frame_defs = convert_to_json_safe_def columns_of_def getitem_def setitem_def
  dt_strftime_def astype_str_def df_where_notnull_None_def to_dict_records_def py_dict_def
  dict_get_def

text \<open>
  What the loop does convert: a cell of a column of dtype \<open>datetime64[ns]\<close> is normalized
  to the \<open>strftime\<close> of its timestamp, of the shape \<open>YYYY-MM-DD HH:MM:SS\<close>, and to
  \<open>None\<close> when it is missing.
\<close>

lemma datetime64_ns_cell_normalized:
  assumes "r < length h" "distinct (columns_of (h ! r))" "wf_df (h ! r)"
    and "(col, Datetime64 U_ns xs) \<in> set (cols (h ! r))"
    and "i < nrows (h ! r)"
  shows "\<exists>records. fst (convert_to_json_safe h r) = Inr records
           \<and> dict_get (records ! i) col
               = Some (case xs ! i of None \<Rightarrow> PyNone | Some t \<Rightarrow> PyStr (strftime t))"
proof -
  have len: "i < length xs"
    using nrows_len [OF assms(3,4)] assms(5) by simp
  have "boxed (where_notnull_None (conv (Datetime64 U_ns xs))) ! i
        = (case xs ! i of None \<Rightarrow> PyNone | Some t \<Rightarrow> PyStr (strftime t))"
    using len by (simp add: conv_def dt_strftime_def isnan_def nan_def split: option.splits)
  with normalized_cell [OF assms(2,4,5)]
  show ?thesis
    by (simp add: convert_to_json_safe_eq [OF assms(1,2)])
qed

text \<open>
  Claim C6 does not hold of the code. The loop tests the dtype \<open>datetime64[ns]\<close> only, so
  date and time cells of any other column pass through as they are: the times of day of an
  \<open>object\<close> column, the dates of a \<open>datetime64[us]\<close> column and the dates of a column
  that also holds text stay \<open>datetime.time\<close> and \<open>Timestamp\<close> objects, not strings of the
  shape \<open>YYYY-MM-DD HH:MM:SS\<close>, and \<open>json.dump\<close> cannot serialise them.
\<close>

theorem date_time_cells_not_formatted:
  "fst (convert_to_json_safe [time_frame] 0)
     = Inr [[(ascii ''departure'', PyTime (ascii ''09:05:00'')),
             (ascii ''arrival'', PyTimestamp example_timestamp),
             (ascii ''checked'', PyTimestamp example_timestamp)],
            [(ascii ''departure'', PyTime (ascii ''10:30:00'')),
             (ascii ''arrival'', PyTimestamp example_timestamp),
             (ascii ''checked'', PyStr (ascii ''-''))]]
   \<and> \<not> json_serializable (PyTime (ascii ''09:05:00''))
   \<and> \<not> json_serializable (PyTimestamp example_timestamp)"
  by (simp add: time_frame_def frame_defs ascii_def numeral_2_eq_2)

text \<open>
  Claim C7 does not hold of the code. A row whose cells are all missing, in a \<open>float64\<close>
  column, a \<open>timedelta64[ns]\<close> column and an \<open>object\<close> column, is normalized to
  \<open>NaN\<close>, the text \<open>NaT\<close> and \<open>None\<close>: only the \<open>object\<close> cell becomes null.
\<close>

theorem missing_cells_not_all_null:
  "fst (convert_to_json_safe [missing_frame] 0)
     = Inr [[(ascii ''n'', PyFloat nan), (ascii ''d'', PyStr (ascii ''NaT'')), (ascii ''s'', PyNone)]]
   \<and> isnan nan"
  by (simp add: missing_frame_def frame_defs ascii_def isnan_def nan_def)

text \<open>The loop assigns into the copy only: the objects allocated before it are not touched.\<close>

lemma convert_columns_frame:
  "convert_columns ls h c = Inr h' \<Longrightarrow> length h' = length h \<and> take c h' = take c h"
proof (induction ls arbitrary: h)
  case Nil
  then show ?case by simp
next
  case (Cons col rest)
  from Cons.prems obtain s where gi: "getitem (h ! c) col = [s]"
    by (auto split: list.splits)
  show ?case
  proof (cases "converted s")
    case None
    with Cons gi show ?thesis by simp
  next
    case (Some s')
    with Cons.prems gi have "convert_columns rest (h[c := setitem (h ! c) col s']) c = Inr h'"
      by simp
    from Cons.IH [OF this] show ?thesis by simp
  qed
qed

text \<open>
  Claim C9. \<open>convert_to_json_safe\<close> works on a copy: when it returns, every object that was
  in the store before the call, and so the DataFrame \<open>df\<close> passed in, is as it was (same
  rows, columns and cells).
\<close>

theorem source_frame_unchanged:
  assumes "df < length h"
  shows "take (length h) (snd (convert_to_json_safe h df)) = h
         \<and> snd (convert_to_json_safe h df) ! df = h ! df"
proof -
  have t: "take (length h) (snd (convert_to_json_safe h df)) = h"
  proof (cases "convert_columns (columns_of (h ! df)) (h @ [h ! df]) (length h)")
    case (Inl e)
    then show ?thesis by (simp add: convert_to_json_safe_def Let_def)
  next
    case (Inr h2)
    from convert_columns_frame [OF this] have "length h2 = Suc (length h)" "take (length h) h2 = h"
      by simp_all
    with Inr show ?thesis by (simp add: convert_to_json_safe_def Let_def)
  qed
  have "snd (convert_to_json_safe h df) ! df = take (length h) (snd (convert_to_json_safe h df)) ! df"
    using assms by simp
  with t show ?thesis by simp
qed

text \<open>The frame passed in is unchanged, while its copy was converted.\<close>

theorem source_frame_unchanged_witness:
  "(0::nat) < length [example_frame]
   \<and> take (length [example_frame]) (snd (convert_to_json_safe [example_frame] 0)) = [example_frame]
   \<and> snd (convert_to_json_safe [example_frame] 0) ! 0 = example_frame
   \<and> snd (convert_to_json_safe [example_frame] 0) ! 1 \<noteq> example_frame"
proof -
  have "snd (convert_to_json_safe [example_frame] 0) ! 1 \<noteq> example_frame"
    by (simp add: example_frame_def frame_defs ascii_def)
  with source_frame_unchanged [of 0 "[example_frame]"] show ?thesis by simp
qed

subsection \<open>The pipeline\<close>

text \<open>What the stages leave unchanged, and the run of \<open>main\<close> on the example sheet.\<close>

lemma ensure_output_dir_fields:
  assumes "ensure_output_dir w = Inr w1"
  shows "platform w1 = platform w" "script_file w1 = script_file w" "excel w1 = excel w"
    "clock w1 = clock w"
    "files w1 = files w" "denied w1 = denied w"
  using assms
  by (auto simp: ensure_output_dir_def mkdir_parents_def split: if_splits)

lemma read_excel_data_cong: "excel w = excel w' \<Longrightarrow> read_excel_data w = read_excel_data w'"
  by (simp add: read_excel_data_def)

lemma example_read: "excel w = Some (Workbook [(SHEET_NAME, example_df)]) \<Longrightarrow> read_excel_data w = Some example_df"
  by (simp add: read_excel_data_def example_df_def EXPECTED_COLUMNS_def REQUIRED_COLUMNS_def upt_rec [of 0] upt_rec [of "Suc _"])

lemma example_convert: "fst (convert_to_json_safe [example_df] 0) = Inr example_records"
  by (simp add: example_df_def example_records_def EXPECTED_COLUMNS_def frame_defs)

lemma example_validate: "validate_columns example_df = Inr True"
  by (simp add: validate_columns_def columns_of_def example_df_def EXPECTED_COLUMNS_def)

lemma example_nrows: "nrows example_df = 1"
  by (simp add: example_df_def)

lemma example_main:
  assumes "platform w = posix" "script_file w = example_script" "has_pandas w" "has_openpyxl w"
    and "excel w = Some (Workbook [(SHEET_NAME, example_df)])"
    and "is_dir w (ascii ''/srv/jedco/output'')"
  shows "main w = (Inr 0, snd (save_to_json w example_records (ascii ''raw_data.json'')))"
proof -
  have "path_str (OUTPUT_DIR posix example_script) = ascii ''/srv/jedco/output''"
    by (simp add: example_script_def path_defs)
  then have e: "ensure_output_dir w = Inr w"
    using assms by (simp add: ensure_output_dir_def path_exists_def)
  show ?thesis
    using assms(3-5)
    by (simp add: main_def check_dependencies_def check_file_exists_def e
        example_read [OF assms(5)] example_validate example_nrows example_convert)
qed

lemma example_run:
  assumes "platform w = posix" "script_file w = example_script" "has_pandas w" "has_openpyxl w"
    and "excel w = Some (Workbook [(SHEET_NAME, example_df)])"
    and "is_dir w = is_dir example_world" "denied w = denied example_world"
  shows "main w = (Inr 0, w\<lparr>files := (files w)(ascii ''/srv/jedco/output/raw_data.json'' \<mapsto>
                  Document (example_document (clock w)))\<rparr>)"
proof -
  have "is_dir w (ascii ''/srv/jedco/output'')"
    by (simp add: assms(6) example_world_def)
  from example_main [OF assms(1-5) this] example_save [OF assms(1,2) example_can_open [OF assms(6,7)]]
  show ?thesis by simp
qed

text \<open>A document found after a run that was not there before holds the records of the sheet.\<close>

lemma main_written:
  assumes "files (snd (main w)) q = Some (Document d)" "files w q \<noteq> Some (Document d)"
  shows "\<exists>df. read_excel_data w = Some df
           \<and> (if nrows df = 0 then data d = []
               else fst (convert_to_json_safe [df] 0) = Inr (data d))"
proof -
  from assms have deps: "check_dependencies w" "check_file_exists w"
    by (auto simp: main_def split: if_splits)
  from assms deps obtain w1 where w1: "ensure_output_dir w = Inr w1"
    by (cases "ensure_output_dir w") (auto simp: main_def)
  note f = ensure_output_dir_fields [OF w1]
  have rd: "read_excel_data w1 = read_excel_data w"
    by (rule read_excel_data_cong) (rule f)
  from assms deps w1 f obtain df where df: "read_excel_data w = Some df"
    by (cases "read_excel_data w") (auto simp: main_def rd)
  from assms deps w1 f df obtain ok where ok: "validate_columns df = Inr ok"
    by (cases "validate_columns df") (auto simp: main_def rd)
  show ?thesis
  proof (cases "nrows df = 0")
    case True
    with assms deps w1 df ok rd
    have "files (snd (save_to_json w1 [] (ascii ''raw_data.json''))) q = Some (Document d)"
      by (simp add: main_def)
    from save_to_json_written [OF this] assms(2) f True df show ?thesis by simp
  next
    case False
    with assms deps w1 f df ok rd obtain records where
      r: "fst (convert_to_json_safe [df] 0) = Inr records"
      by (cases "fst (convert_to_json_safe [df] 0)") (auto simp: main_def)
    with False assms deps w1 df ok rd
    have "files (snd (save_to_json w1 records (ascii ''raw_data.json''))) q = Some (Document d)"
      by (simp add: main_def)
    from save_to_json_written [OF this] assms(2) f False df r show ?thesis by simp
  qed
qed

text \<open>
  Claim C1 does not hold of the code. Where the export file cannot be opened for writing,
  \<open>save_to_json\<close> returns \<open>False\<close> and writes nothing, yet \<open>main\<close> discards that result and
  returns 0: the exit status is 0 although the Writer failed.
\<close>

theorem main_ignores_writer_failure:
  "fst (save_to_json readonly_world example_records (ascii ''raw_data.json'')) = False
   \<and> main readonly_world = (Inr 0, readonly_world)
   \<and> exit_status (fst (main readonly_world)) = 0"
proof -
  have p: "path_str (truediv (OUTPUT_DIR posix example_script) (ascii ''raw_data.json''))
           = ascii ''/srv/jedco/output/raw_data.json''"
    unfolding example_output_file by (simp add: path_str_def path_sep_def posix_def ascii_def)
  have s: "save_to_json readonly_world example_records (ascii ''raw_data.json'') = (False, readonly_world)"
    using example_guard
    by (simp add: save_to_json_def Let_def can_open_w_def p readonly_world_def example_world_def)
  have "main readonly_world = (Inr 0, snd (save_to_json readonly_world example_records (ascii ''raw_data.json'')))"
    by (rule example_main) (simp_all add: readonly_world_def example_world_def)
  with s show ?thesis by (simp add: exit_status_def)
qed

text \<open>
  Claim C8. When the worksheet has no data row (and the libraries are present, the sheet
  has its sixteen columns, the output directory can be provided and the export file opened),
  \<open>main\<close> returns exit code 0 and the export file holds a complete envelope with
  \<open>data = []\<close> and \<open>total_records = 0\<close>, the expected columns, the sheet name, the name
  of the source file and the time of the export.
\<close>

theorem empty_sheet_writes_empty_envelope:
  assumes "check_dependencies w" "excel w = Some (Workbook sheets)"
    and "map_of sheets SHEET_NAME = Some df" "16 \<le> length (cols df)" "nrows df = 0"
    and "ensure_output_dir w = Inr w1"
    and "can_open_w w1 (truediv (OUTPUT_DIR (platform w) (script_file w)) (ascii ''raw_data.json''))"
  shows "fst (main w) = Inr 0 \<and> exit_status (fst (main w)) = 0
         \<and> (\<exists>doc. files (snd (main w)) (output_file w) = Some (Document doc)
                \<and> data doc = [] \<and> total_records (metadata doc) = 0
                \<and> columns (metadata doc) = EXPECTED_COLUMNS \<and> sheet (metadata doc) = SHEET_NAME
                \<and> source (metadata doc) = path_name (EXCEL_PATH (platform w))
                \<and> exported_at (metadata doc) = clock w)"
proof -
  note f = ensure_output_dir_fields [OF assms(6)]
  let ?df = "df\<lparr>cols := map (\<lambda>i. cols df ! i) REQUIRED_COLUMNS\<rparr>"
  have "list_all (\<lambda>i. i < length (cols df)) REQUIRED_COLUMNS"
    using assms(4) by (simp add: REQUIRED_COLUMNS_def list_all_iff)
  then have rd: "read_excel_data w1 = Some ?df"
    using assms(2,3) f by (simp add: read_excel_data_def)
  have "columns_of ?df \<noteq> []"
    by (simp add: columns_of_def REQUIRED_COLUMNS_def)
  then obtain ok where ok: "validate_columns ?df = Inr ok"
    by (cases "columns_of ?df") (auto simp: validate_columns_def)
  have m: "main w = (Inr 0, snd (save_to_json w1 [] (ascii ''raw_data.json'')))"
    using assms(1,2,5,6) rd ok by (simp add: main_def check_file_exists_def)
  have g: "sublist (ascii ''output'')
     (path_str (truediv (OUTPUT_DIR (platform w1) (script_file w1)) (ascii ''raw_data.json'')))"
    by (rule guard_relative [OF raw_data_relative])
  have "fst (save_to_json w1 [] (ascii ''raw_data.json''))"
    using g assms(7) f by (simp add: save_to_json_def Let_def json_dump_def)
  from save_to_json_True [OF this] show ?thesis
    by (simp add: m exit_status_def output_file_def f)
qed

text \<open>An empty sheet, exported into an output directory that the run creates.\<close>

theorem empty_sheet_writes_empty_envelope_witness:
  "check_dependencies empty_sheet_world
   \<and> excel empty_sheet_world = Some (Workbook [(SHEET_NAME, empty_df)])
   \<and> map_of [(SHEET_NAME, empty_df)] SHEET_NAME = Some empty_df
   \<and> 16 \<le> length (cols empty_df) \<and> nrows empty_df = 0
   \<and> ensure_output_dir empty_sheet_world = Inr created_world
   \<and> can_open_w created_world
        (truediv (OUTPUT_DIR (platform empty_sheet_world) (script_file empty_sheet_world))
                 (ascii ''raw_data.json''))
   \<and> fst (main empty_sheet_world) = Inr 0 \<and> exit_status (fst (main empty_sheet_world)) = 0
   \<and> (\<exists>doc. files (snd (main empty_sheet_world)) (output_file empty_sheet_world)
                = Some (Document doc)
            \<and> data doc = [] \<and> total_records (metadata doc) = 0
            \<and> columns (metadata doc) = EXPECTED_COLUMNS \<and> sheet (metadata doc) = SHEET_NAME
            \<and> source (metadata doc) = path_name (EXCEL_PATH (platform empty_sheet_world))
            \<and> exported_at (metadata doc) = clock empty_sheet_world)"
proof -
  have sf: "script_file empty_sheet_world = example_script"
    "platform empty_sheet_world = posix"
    by (simp_all add: empty_sheet_world_def example_world_def)
  have h1: "check_dependencies empty_sheet_world"
    by (simp add: check_dependencies_def empty_sheet_world_def example_world_def)
  have h2: "excel empty_sheet_world = Some (Workbook [(SHEET_NAME, empty_df)])"
    by (simp add: empty_sheet_world_def)
  have h3: "map_of [(SHEET_NAME, empty_df)] SHEET_NAME = Some empty_df" by simp
  have h4: "16 \<le> length (cols empty_df)" by (simp add: empty_df_def EXPECTED_COLUMNS_def)
  have h5: "nrows empty_df = 0" by (simp add: empty_df_def)
  have h6: "ensure_output_dir empty_sheet_world = Inr created_world"
    by (simp add: ensure_output_dir_def path_exists_def mkdir_parents_def created_world_def sf
        dir_after_mkdir)
       (simp add: empty_sheet_world_def example_world_def ascii_def)
  have h7: "can_open_w created_world
        (truediv (OUTPUT_DIR (platform empty_sheet_world) (script_file empty_sheet_world))
                 (ascii ''raw_data.json''))"
    unfolding sf
    by (simp add: can_open_w_def example_output_str created_world_def sf example_ancestors)
       (simp add: empty_sheet_world_def example_world_def ascii_def)
  from h1 h2 h3 h4 h5 h6 h7 empty_sheet_writes_empty_envelope [OF h1 h2 h3 h4 h5 h6 h7]
  show ?thesis by blast
qed

text \<open>
  Claim C10. The exported \<open>data\<close> array is a function of the source workbook: for two runs
  of \<open>main\<close> in environments that hold the same workbook (clock, script location and file
  system may differ), the documents the runs wrote have the same \<open>data\<close>; the serialisation
  by \<open>json.dump\<close> is a function of the document.
\<close>

theorem export_data_deterministic:
  assumes "excel w = excel w'"
    and "files (snd (main w)) q = Some (Document d)" "files w q \<noteq> Some (Document d)"
    and "files (snd (main w')) q' = Some (Document d')" "files w' q' \<noteq> Some (Document d')"
  shows "data d = data d'"
proof -
  from main_written [OF assms(2,3)] obtain df where
    df: "read_excel_data w = Some df"
        "if nrows df = 0 then data d = [] else fst (convert_to_json_safe [df] 0) = Inr (data d)"
    by blast
  from main_written [OF assms(4,5)] obtain df' where
    df': "read_excel_data w' = Some df'"
        "if nrows df' = 0 then data d' = [] else fst (convert_to_json_safe [df'] 0) = Inr (data d')"
    by blast
  from df(1) df'(1) read_excel_data_cong [OF assms(1)] have "df' = df" by simp
  with df(2) df'(2) show ?thesis by (auto split: if_splits)
qed

text \<open>Two runs one after the other, a day apart: the documents differ in \<open>exported_at\<close> only.\<close>

theorem export_data_deterministic_witness:
  "excel example_world = excel later_world
   \<and> files (snd (main example_world)) (ascii ''/srv/jedco/output/raw_data.json'')
       = Some (Document (example_document (ascii ''2026-01-24T10:00:00'')))
   \<and> files example_world (ascii ''/srv/jedco/output/raw_data.json'')
       \<noteq> Some (Document (example_document (ascii ''2026-01-24T10:00:00'')))
   \<and> files (snd (main later_world)) (ascii ''/srv/jedco/output/raw_data.json'')
       = Some (Document (example_document (ascii ''2026-01-25T10:00:00'')))
   \<and> files later_world (ascii ''/srv/jedco/output/raw_data.json'')
       \<noteq> Some (Document (example_document (ascii ''2026-01-25T10:00:00'')))
   \<and> data (example_document (ascii ''2026-01-24T10:00:00''))
       = data (example_document (ascii ''2026-01-25T10:00:00''))"
proof -
  let ?q = "ascii ''/srv/jedco/output/raw_data.json''"
  have m1: "main example_world = (Inr 0, example_world\<lparr>files := (files example_world)(?q \<mapsto>
                  Document (example_document (clock example_world)))\<rparr>)"
    by (rule example_run) (simp_all add: example_world_def)
  have lw: "later_world = example_world\<lparr>files := (files example_world)(?q \<mapsto>
                  Document (example_document (clock example_world))),
                  clock := ascii ''2026-01-25T10:00:00''\<rparr>"
    by (simp add: later_world_def m1)
  have m2: "main later_world = (Inr 0, later_world\<lparr>files := (files later_world)(?q \<mapsto>
                  Document (example_document (clock later_world)))\<rparr>)"
    by (rule example_run) (simp_all add: lw example_world_def)
  have c1: "clock example_world = ascii ''2026-01-24T10:00:00''"
    by (simp add: example_world_def)
  have c2: "clock later_world = ascii ''2026-01-25T10:00:00''"
    by (simp add: lw)
  have h1: "excel example_world = excel later_world" by (simp add: lw)
  have h2: "files (snd (main example_world)) ?q
       = Some (Document (example_document (ascii ''2026-01-24T10:00:00'')))"
    by (simp add: m1 c1)
  have h3: "files example_world ?q
       \<noteq> Some (Document (example_document (ascii ''2026-01-24T10:00:00'')))"
    by (simp add: example_world_def)
  have h4: "files (snd (main later_world)) ?q
       = Some (Document (example_document (ascii ''2026-01-25T10:00:00'')))"
    by (simp add: m2 c2)
  have h5: "files later_world ?q
       \<noteq> Some (Document (example_document (ascii ''2026-01-25T10:00:00'')))"
    by (simp add: lw c1 example_document_def ascii_def)
  from h1 h2 h3 h4 h5 export_data_deterministic [OF h1 h2 h3 h4 h5] show ?thesis by blast
qed

end
